theory Spec2Isabelle
  imports Complex_Main "HOL-Library.Char_ord" "HOL-Library.List_Lexorder"
begin

section \<open>The parcel dashboard (app.py) as a function of its state and inputs\<close>

text \<open>
  app.py is a Streamlit script: every user interaction runs it once from top to bottom.
  One run is modelled as the function \<open>script\<close>, from the server's state (the
  GeoJSON file, the memo of \<open>load_data\<close>, the session states) and the values of the
  widgets to the new state and either the rendered elements or the exception that ended
  the run. A run that raises keeps the changes of state it made before.

  Numbers are exact rationals: \<open>superficie\<close>, \<open>rendement_kg_ha\<close> and the
  coordinates stand for the decimal values written in the source and typed into the form.
  Sums and means are exact, where float64 has a representation error; the rounding to two
  decimals of line 90, whose float64 result can differ from the exact one in the last
  digit shown, is kept as an expression and not evaluated.
  Text is a byte string (UTF-8), whose lexicographic order is the order of Python's
  \<open>str\<close>.

  The static elements of the page (title, logo, footer, style sheet) carry no data and are
  left out, as is a failure of the write in \<open>save_data\<close>: the run is described when
  the write succeeds.
\<close>

subsection \<open>Data: parcels and the GeoDataFrame\<close>

datatype geometry = Polygon (exterior: "(rat \<times> rat) list")

text \<open>
  Modelled from the spec: the columns of \<open>data/parcelles_multiculture.geojson\<close>, a
  file that is not among the sources. A record has the five attributes of the Parcel Record
  (section 3), the same the form's row is built with at lines 59-65, none of them missing.
\<close>

record parcel =
  culture :: string
  region :: string
  superficie :: rat
  rendement_kg_ha :: rat
  geometry :: geometry

text \<open>A GeoDataFrame: its rows in index order (the index is the position, as
  \<open>ignore_index=True\<close> leaves it) and its coordinate reference system.\<close>

record gdf =
  rows :: "parcel list"
  crs :: "string option"

text \<open>The exceptions that end a run: the file cannot be read (line 20), the collection
  has no column \<open>region\<close> (line 34), the map layer cannot be built (line 83).\<close>

datatype error = DataUnavailable | KeyError | IndexError

text \<open>
  The server: the persisted file \<open>data/parcelles_multiculture.geojson\<close> (\<open>None\<close>
  when it is missing or unreadable), the memo \<open>st.cache_data\<close> keeps for
  \<open>load_data\<close> (one entry, the function has no argument; shared by all sessions), and
  \<open>st.session_state.data\<close> of every session (\<open>None\<close>: the key is not set).
\<close>

record server =
  geojson :: "gdf option"
  cache :: "gdf option"
  sessions :: "nat \<Rightarrow> gdf option"

subsection \<open>Lines 14-23: saving and loading\<close>

definition save_data :: "gdf \<Rightarrow> server \<Rightarrow> server" where
  "save_data g srv = srv\<lparr>geojson := Some g\<rparr>"

definition read_file :: "server \<Rightarrow> error + gdf" where
  "read_file srv = (case geojson srv of None \<Rightarrow> Inl DataUnavailable | Some g \<Rightarrow> Inr g)"

definition load_data :: "server \<Rightarrow> error + (gdf \<times> server)" where
  "load_data srv =
     (case cache srv of
        Some g \<Rightarrow> Inr (g, srv)
      | None \<Rightarrow>
          (case read_file srv of
             Inl e \<Rightarrow> Inl e
           | Inr g \<Rightarrow> Inr (g, srv\<lparr>cache := Some g\<rparr>)))"

text \<open>Lines 22-23: \<open>if "data" not in st.session_state: ... = load_data()\<close>; the
  result is the session's collection and the server with it stored.\<close>

definition init_session :: "nat \<Rightarrow> server \<Rightarrow> error + (gdf \<times> server)" where
  "init_session sid srv =
     (case sessions srv sid of
        Some g \<Rightarrow> Inr (g, srv)
      | None \<Rightarrow>
          (case load_data srv of
             Inl e \<Rightarrow> Inl e
           | Inr (g, srv') \<Rightarrow> Inr (g, srv'\<lparr>sessions := (sessions srv')(sid := Some g)\<rparr>)))"

subsection \<open>Lines 32-42: the two multiselect filters\<close>

text \<open>\<open>Series.unique()\<close>: the distinct values in order of first appearance.\<close>

fun unique_from :: "string list \<Rightarrow> string list \<Rightarrow> string list" where
  "unique_from seen [] = []"
| "unique_from seen (x # xs) =
     (if x \<in> set seen then unique_from seen xs else x # unique_from (x # seen) xs)"

definition unique :: "string list \<Rightarrow> string list" where
  "unique xs = unique_from [] xs"

fun isin :: "string \<Rightarrow> string list \<Rightarrow> bool" where
  "isin v [] = False"
| "isin v (x # xs) = (v = x \<or> isin v xs)"

text \<open>
  \<open>st.multiselect(label, options, default)\<close> returns the user's current selection,
  always values of \<open>options\<close>: the default while the user has not touched the widget
  (\<open>None\<close>), otherwise what the user picked among the options.
\<close>

definition multiselect :: "string list \<Rightarrow> string list \<Rightarrow> string list option \<Rightarrow> string list" where
  "multiselect opts dflt picked =
     (case picked of None \<Rightarrow> dflt | Some ps \<Rightarrow> filter (\<lambda>p. isin p opts) ps)"

subsection \<open>Lines 47-72: the form and its submit handler\<close>

text \<open>
  What the user has entered when the run starts: the state of the two multiselects
  (\<open>None\<close>: untouched), the four fields of the form (the number inputs are a float of
  at least 0.1 and an integer of at least 0) and whether the run was triggered by the
  form's button.
\<close>

record inputs =
  regions_picked :: "string list option"
  cultures_picked :: "string list option"
  culture_new :: string
  region_new :: string
  superficie_new :: rat
  rendement_new :: int
  submit :: bool

definition coords_demo :: "(rat \<times> rat) list" where
  "coords_demo =
     [(- (137 / 10), 95 / 10), (- (136 / 10), 95 / 10), (- (136 / 10), 96 / 10),
      (- (137 / 10), 96 / 10), (- (137 / 10), 95 / 10)]"

definition new_geom :: geometry where
  "new_geom = Polygon coords_demo"

definition new_row :: "inputs \<Rightarrow> parcel" where
  "new_row inp =
     \<lparr>culture = culture_new inp, region = region_new inp,
      superficie = superficie_new inp, rendement_kg_ha = of_int (rendement_new inp),
      geometry = new_geom\<rparr>"

text \<open>\<open>pd.concat([data, new_row], ignore_index=True)\<close>, the one-row frame built with
  the CRS of \<open>data\<close>.\<close>

definition concat_row :: "gdf \<Rightarrow> parcel \<Rightarrow> gdf" where
  "concat_row g r = g\<lparr>rows := rows g @ [r]\<rparr>"

text \<open>Lines 55-72. The result is the session's collection, the server, and the values
  the success message echoes.\<close>

definition submit_handler ::
  "nat \<Rightarrow> inputs \<Rightarrow> gdf \<Rightarrow> server \<Rightarrow> gdf \<times> server \<times> (string \<times> string \<times> rat \<times> int) option" where
  "submit_handler sid inp g srv =
     (if submit inp then
        (let g' = concat_row g (new_row inp);
             srv' = srv\<lparr>sessions := (sessions srv)(sid := Some g')\<rparr>
         in (g', save_data g' srv',
             Some (culture_new inp, region_new inp, superficie_new inp, rendement_new inp)))
      else (g, srv, None))"

subsection \<open>Lines 75-78: the filtered view\<close>

text \<open>Boolean indexing \<open>df[mask]\<close>: the rows at which the mask is true.\<close>

fun boolean_index :: "'a list \<Rightarrow> bool list \<Rightarrow> 'a list" where
  "boolean_index (x # xs) (b # bs) = (if b then x # boolean_index xs bs else boolean_index xs bs)"
| "boolean_index _ _ = []"

definition filtered_gdf :: "gdf \<Rightarrow> string list \<Rightarrow> string list \<Rightarrow> gdf" where
  "filtered_gdf g regions cultures =
     (let m1 = map (\<lambda>r. isin (region r) regions) (rows g);
          m2 = map (\<lambda>r. isin (culture r) cultures) (rows g);
          mask = map2 (\<and>) m1 m2
      in g\<lparr>rows := boolean_index (rows g) mask\<rparr>)"

subsection \<open>Line 83: the map layer\<close>

text \<open>\<open>m.add_gdf(filtered_gdf, ...)\<close>: leafmap raises \<open>IndexError\<close> on a frame
  that has no row; otherwise the frame becomes the layer.\<close>

definition add_gdf :: "gdf \<Rightarrow> error + gdf" where
  "add_gdf v = (if rows v = [] then Inl IndexError else Inr v)"

subsection \<open>Lines 89-90: the two metrics\<close>

text \<open>\<open>round(x, 2)\<close> of the float64 the sum is: NumPy computes
  \<open>rint(x * 100) / 100\<close> in float64 arithmetic. The expression is kept as it is
  written, with the exact sum as its argument.\<close>

datatype rounded = Round rat nat

definition nombre_de_parcelles :: "gdf \<Rightarrow> nat" where
  "nombre_de_parcelles v = length (rows v)"

fun series_sum :: "rat list \<Rightarrow> rat" where
  "series_sum [] = 0"
| "series_sum (x # xs) = x + series_sum xs"

definition superficie_totale :: "gdf \<Rightarrow> rounded" where
  "superficie_totale v = Round (series_sum (map superficie (rows v))) 2"

subsection \<open>Lines 94-105: mean yield per crop, or a warning\<close>

text \<open>\<open>groupby("culture")["rendement_kg_ha"].mean().reset_index()\<close>: one row per
  culture of the view, the keys sorted, with the mean of the group's yields. A group is
  never empty, so the mean never divides by zero.\<close>

definition mean :: "rat list \<Rightarrow> rat" where
  "mean xs = series_sum xs / of_nat (length xs)"

definition rendement_df :: "gdf \<Rightarrow> (string \<times> rat) list" where
  "rendement_df v =
     map (\<lambda>k. (k, mean (map rendement_kg_ha (filter (\<lambda>r. culture r = k) (rows v)))))
       (sort (unique (map culture (rows v))))"

datatype chart_element = Plotly_chart "(string \<times> rat) list" | Warning string

text \<open>The message of line 105, as UTF-8 bytes.\<close>

definition aucune_donnee :: string where
  "aucune_donnee =
     ''Aucune donn'' @ [CHR 0xC3, CHR 0xA9] @ ''e '' @ [CHR 0xC3, CHR 0xA0] @
     '' afficher. V'' @ [CHR 0xC3, CHR 0xA9] @ ''rifiez les filtres.''"

definition graphique :: "gdf \<Rightarrow> chart_element" where
  "graphique v =
     (if rows v \<noteq> [] then Plotly_chart (rendement_df v) else Warning aucune_donnee)"

subsection \<open>Lines 109-118: the table and the CSV export\<close>

datatype cell = Txt string | Num rat

text \<open>A plain DataFrame: column names and one list of cells per row.\<close>

record frame =
  columns :: "string list"
  body :: "cell list list"

definition gdf_columns :: "string list" where
  "gdf_columns = [''culture'', ''region'', ''superficie'', ''rendement_kg_ha'', ''geometry'']"

definition attribute_cell :: "parcel \<Rightarrow> string \<Rightarrow> cell" where
  "attribute_cell r c =
     (if c = ''culture'' then Txt (culture r)
      else if c = ''region'' then Txt (region r)
      else if c = ''superficie'' then Num (superficie r)
      else Num (rendement_kg_ha r))"

text \<open>\<open>filtered_gdf.drop(columns="geometry")\<close>.\<close>

definition drop_geometry :: "gdf \<Rightarrow> frame" where
  "drop_geometry v =
     (let cols = filter (\<lambda>c. c \<noteq> ''geometry'') gdf_columns
      in \<lparr>columns = cols, body = map (\<lambda>r. map (attribute_cell r) cols) (rows v)\<rparr>)"

text \<open>\<open>to_csv(index=False)\<close>: the header line, then one line per row; the fields
  are kept as cells, the characters a number is printed with are not modelled.\<close>

datatype csv_field = Name string | Value cell

definition to_csv :: "frame \<Rightarrow> csv_field list list" where
  "to_csv f = map Name (columns f) # map (map Value) (body f)"

subsection \<open>One run of the script\<close>

record outputs =
  success :: "(string \<times> string \<times> rat \<times> int) option"
  map_layer :: gdf
  metric_nombre :: nat
  metric_superficie :: rounded
  chart :: chart_element
  dataframe :: frame
  csv :: "csv_field list list"

text \<open>Lines 80-118 on the filtered view \<open>v\<close>: the statements run in order, so
  nothing after line 83 is rendered when it raises.\<close>

definition render ::
  "(string \<times> string \<times> rat \<times> int) option \<Rightarrow> gdf \<Rightarrow> error + outputs" where
  "render msg v =
     (case add_gdf v of
        Inl e \<Rightarrow> Inl e
      | Inr layer \<Rightarrow>
          Inr \<lparr>success = msg, map_layer = layer,
               metric_nombre = nombre_de_parcelles v,
               metric_superficie = superficie_totale v,
               chart = graphique v,
               dataframe = drop_geometry v,
               csv = to_csv (drop_geometry v)\<rparr>)"

text \<open>Lines 32-36 and 38-42: options and default are both the distinct values of the
  column in the session's collection at that point of the run.\<close>

definition regions :: "gdf \<Rightarrow> inputs \<Rightarrow> string list" where
  "regions g inp =
     multiselect (unique (map region (rows g))) (unique (map region (rows g)))
       (regions_picked inp)"

definition cultures :: "gdf \<Rightarrow> inputs \<Rightarrow> string list" where
  "cultures g inp =
     multiselect (unique (map culture (rows g))) (unique (map culture (rows g)))
       (cultures_picked inp)"

text \<open>
  The whole run. A collection read from a file with no feature has no attribute column,
  so \<open>st.session_state.data['region']\<close> at line 34 raises \<open>KeyError\<close>: the
  form below it is not reached, and no submission is handled on a collection with no row.
  The handler of lines 55-72 runs before the view is filtered and rendered, so the append
  and the write to the file stay when line 83 raises.
\<close>

definition script :: "nat \<Rightarrow> inputs \<Rightarrow> server \<Rightarrow> server \<times> (error + outputs)" where
  "script sid inp srv =
     (case init_session sid srv of
        Inl e \<Rightarrow> (srv, Inl e)
      | Inr (g, srv1) \<Rightarrow>
          (if rows g = [] then (srv1, Inl KeyError)
           else
             (let rs = regions g inp;
                  cs = cultures g inp;
                  (g', srv2, msg) = submit_handler sid inp g srv1
              in (srv2, render msg (filtered_gdf g' rs cs)))))"


subsection \<open>Example data\<close>

text \<open>The two-parcel collection and the form submission used as examples below.\<close>

definition ex_maize :: parcel where
  "ex_maize =
     \<lparr>culture = ''maize'', region = ''Kindia'', superficie = 2, rendement_kg_ha = 1000,
      geometry = new_geom\<rparr>"

definition ex_rice :: parcel where
  "ex_rice =
     \<lparr>culture = ''rice'', region = ''Mamou'', superficie = 3 / 2, rendement_kg_ha = 2000,
      geometry = new_geom\<rparr>"

definition ex_gdf :: gdf where
  "ex_gdf = \<lparr>rows = [ex_maize, ex_rice], crs = Some ''EPSG:4326''\<rparr>"

text \<open>A freshly started server: the file holds the collection, nothing is cached and no
  session has run.\<close>

definition ex_server :: server where
  "ex_server = \<lparr>geojson = Some ex_gdf, cache = None, sessions = (\<lambda>_. None)\<rparr>"

definition ex_sorgho :: inputs where
  "ex_sorgho =
     \<lparr>regions_picked = None, cultures_picked = None, culture_new = ''sorgho'',
      region_new = ''Kindia'', superficie_new = 7 / 2, rendement_new = 800, submit = True\<rparr>"

text \<open>A collection in which one culture has two parcels.\<close>

definition ex_mixed :: gdf where
  "ex_mixed =
     \<lparr>rows = [ex_rice, ex_maize, ex_maize\<lparr>rendement_kg_ha := 1500\<rparr>],
      crs = Some ''EPSG:4326''\<rparr>"

text \<open>A run without submission in which the user has kept only Kindia selected.\<close>

definition ex_kindia_only :: inputs where
  "ex_kindia_only =
     \<lparr>regions_picked = Some [''Kindia''], cultures_picked = None, culture_new = '''',
      region_new = '''', superficie_new = 1 / 10, rendement_new = 0, submit = False\<rparr>"

text \<open>A submission with a region and a culture the collection does not have, and a
  later run with the filters left at their defaults.\<close>

definition ex_fonio :: inputs where
  "ex_fonio =
     \<lparr>regions_picked = None, cultures_picked = None, culture_new = ''fonio'',
      region_new = ''Labe'', superficie_new = 1, rendement_new = 600, submit = True\<rparr>"

definition ex_rerun :: inputs where
  "ex_rerun =
     \<lparr>regions_picked = None, cultures_picked = None, culture_new = '''',
      region_new = '''', superficie_new = 1 / 10, rendement_new = 0, submit = False\<rparr>"




text \<open>Runs without submission in which the user has cleared the region filter, cleared
  the culture filter, and kept a region and a culture that no parcel has together.\<close>

definition ex_no_region :: inputs where
  "ex_no_region =
     \<lparr>regions_picked = Some [], cultures_picked = None, culture_new = '''',
      region_new = '''', superficie_new = 1 / 10, rendement_new = 0, submit = False\<rparr>"

definition ex_no_culture :: inputs where
  "ex_no_culture =
     \<lparr>regions_picked = None, cultures_picked = Some [], culture_new = '''',
      region_new = '''', superficie_new = 1 / 10, rendement_new = 0, submit = False\<rparr>"

definition ex_kindia_rice :: inputs where
  "ex_kindia_rice =
     \<lparr>regions_picked = Some [''Kindia''], cultures_picked = Some [''rice''],
      culture_new = '''', region_new = '''', superficie_new = 1 / 10, rendement_new = 0,
      submit = False\<rparr>"

text \<open>The server after session 0 has loaded the two-parcel collection.\<close>

definition ex_loaded :: server where
  "ex_loaded =
     \<lparr>geojson = Some ex_gdf, cache = Some ex_gdf,
      sessions = (\<lambda>_. None)(0 := Some ex_gdf)\<rparr>"

section \<open>Properties\<close>

lemma isin_set: "isin v xs \<longleftrightarrow> v \<in> set xs"
  by (induction xs) auto

lemma boolean_index_map: "boolean_index xs (map p xs) = filter p xs"
  by (induction xs) auto

lemma map2_conj_map:
  "map2 (\<and>) (map p xs) (map q xs) = map (\<lambda>x. p x \<and> q x) xs"
  by (induction xs) auto

lemma rows_filtered_gdf:
  "rows (filtered_gdf g rs cs) =
     filter (\<lambda>r. region r \<in> set rs \<and> culture r \<in> set cs) (rows g)"
  by (simp add: filtered_gdf_def Let_def map2_conj_map boolean_index_map isin_set)

lemma filtered_gdf_eq:
  "filtered_gdf g rs cs =
     g\<lparr>rows := filter (\<lambda>r. region r \<in> set rs \<and> culture r \<in> set cs) (rows g)\<rparr>"
  by (simp add: filtered_gdf_def Let_def map2_conj_map boolean_index_map isin_set)

lemma render_empty: "rows v = [] \<Longrightarrow> render msg v = Inl IndexError"
  by (simp add: render_def add_gdf_def)

lemma render_nonempty:
  "rows v \<noteq> [] \<Longrightarrow>
     render msg v =
       Inr \<lparr>success = msg, map_layer = v,
            metric_nombre = nombre_de_parcelles v,
            metric_superficie = superficie_totale v,
            chart = graphique v,
            dataframe = drop_geometry v,
            csv = to_csv (drop_geometry v)\<rparr>"
  by (simp add: render_def add_gdf_def)

lemma render_Inr:
  assumes "render msg v = Inr out"
  shows "rows v \<noteq> []" and "map_layer out = v" and "success out = msg"
    and "metric_nombre out = nombre_de_parcelles v"
    and "metric_superficie out = superficie_totale v"
    and "chart out = graphique v"
    and "dataframe out = drop_geometry v"
    and "csv out = to_csv (drop_geometry v)"
  using assms by (auto simp: render_def add_gdf_def split: if_splits)

lemma script_submit:
  assumes "init_session sid srv = Inr (g, srv1)" and "rows g \<noteq> []" and "submit inp"
  shows "script sid inp srv =
     (srv1\<lparr>sessions := (sessions srv1)(sid := Some (concat_row g (new_row inp))),
           geojson := Some (concat_row g (new_row inp))\<rparr>,
      render (Some (culture_new inp, region_new inp, superficie_new inp, rendement_new inp))
        (filtered_gdf (concat_row g (new_row inp)) (regions g inp) (cultures g inp)))"
  using assms by (simp add: script_def submit_handler_def save_data_def Let_def)

lemma script_no_submit:
  assumes "init_session sid srv = Inr (g, srv1)" and "rows g \<noteq> []" and "\<not> submit inp"
  shows "script sid inp srv =
     (srv1, render None (filtered_gdf g (regions g inp) (cultures g inp)))"
  using assms by (simp add: script_def submit_handler_def Let_def)

lemma init_session_sessions:
  "init_session sid srv = Inr (g, srv1) \<Longrightarrow> sessions srv1 sid = Some g"
  by (auto simp: init_session_def split: option.splits sum.splits)

lemma init_session_ex: "init_session 0 ex_server = Inr (ex_gdf, ex_loaded)"
  by (simp add: init_session_def ex_server_def ex_loaded_def load_data_def read_file_def)

lemma rows_ex_gdf: "rows ex_gdf \<noteq> []"
  by (simp add: ex_gdf_def)

lemma submit_ex_sorgho: "submit ex_sorgho"
  by (simp add: ex_sorgho_def)

text \<open>The two failures of a run that has read its collection: no row in the collection
  (line 34), no row in the filtered view (line 83).\<close>

lemma script_no_row:
  assumes "init_session sid srv = Inr (g, srv1)" and "rows g = []"
  shows "script sid inp srv = (srv1, Inl KeyError)"
  using assms by (simp add: script_def)

lemma script_empty_view:
  assumes "init_session sid srv = Inr (g, srv1)" and "rows g \<noteq> []" and "\<not> submit inp"
    and "rows (filtered_gdf g (regions g inp) (cultures g inp)) = []"
  shows "script sid inp srv = (srv1, Inl IndexError)"
  using assms by (simp add: script_no_submit render_empty)

subsection \<open>The filter\<close>

text \<open>
  C1. For every collection and all selections of regions \<open>R\<close> and cultures \<open>C\<close>, the
  filtered view is the subsequence of the records whose region is in \<open>R\<close> and whose
  culture is in \<open>C\<close>: as a set, exactly the records of the collection that satisfy
  both conditions.
\<close>

theorem filter_exact:
  "rows (filtered_gdf g R C) =
     filter (\<lambda>r. region r \<in> set R \<and> culture r \<in> set C) (rows g)
   \<and> set (rows (filtered_gdf g R C)) =
       {r \<in> set (rows g). region r \<in> set R \<and> culture r \<in> set C}"
  by (simp add: rows_filtered_gdf)

text \<open>The example of the specification: regions Kindia, cultures maize and rice select
  the first record only.\<close>

theorem filter_exact_witness:
  "rows (filtered_gdf ex_gdf [''Kindia''] [''maize'', ''rice'']) = [ex_maize]
   \<and> set (rows (filtered_gdf ex_gdf [''Kindia''] [''maize'', ''rice''])) = {ex_maize}"
  using filter_exact [of ex_gdf "[''Kindia'']" "[''maize'', ''rice'']"]
  by (simp add: ex_gdf_def ex_maize_def ex_rice_def)

text \<open>
  C4. With an empty selection of regions or an empty selection of cultures the filtered
  view is empty, whatever the collection holds.
\<close>

theorem filter_empty_selection:
  "R = [] \<or> C = [] \<Longrightarrow> rows (filtered_gdf g R C) = []"
  by (auto simp: rows_filtered_gdf)

theorem filter_empty_selection_witness:
  "rows ex_gdf \<noteq> [] \<and> rows (filtered_gdf ex_gdf [] [''maize'', ''rice'']) = []
   \<and> rows (filtered_gdf ex_gdf [''Kindia'', ''Mamou''] []) = []"
  using filter_empty_selection [of "[]" "[''maize'', ''rice'']" ex_gdf]
    filter_empty_selection [of "[''Kindia'', ''Mamou'']" "[]" ex_gdf]
  by (simp add: ex_gdf_def)

text \<open>
  C10. Filtering is idempotent: filtering the filtered view again with the same selections
  returns it unchanged, since each of its records already satisfies both conditions.
\<close>

theorem filter_idempotent:
  "filtered_gdf (filtered_gdf g R C) R C = filtered_gdf g R C
   \<and> list_all (\<lambda>r. region r \<in> set R \<and> culture r \<in> set C) (rows (filtered_gdf g R C))"
  by (simp add: filtered_gdf_eq list_all_iff)

subsection \<open>The append\<close>

text \<open>
  In the three statements below \<open>g\<close> is the session's collection when the handler
  runs. It has a row: on a collection with no row the run ends at line 34, before the form,
  and no submission is handled. The statements are about the state the run leaves, which
  is the same whether the rendering after the handler succeeds or raises.
\<close>

text \<open>
  C2. When the form is submitted, the session's collection grows by exactly one record,
  and the record appended carries the submitted culture, region, superficie and rendement
  with the placeholder polygon of vertices (-13.7, 9.5), (-13.6, 9.5), (-13.6, 9.6),
  (-13.7, 9.6) (its ring closed by the first vertex), in the CRS of the collection.
\<close>

theorem append_size_and_values:
  assumes "init_session sid srv = Inr (g, srv1)" and "rows g \<noteq> []" and "submit inp"
  shows "\<exists>srv' res g'. script sid inp srv = (srv', res) \<and> sessions srv' sid = Some g'
     \<and> length (rows g') = length (rows g) + 1
     \<and> last (rows g') =
         \<lparr>culture = culture_new inp, region = region_new inp,
          superficie = superficie_new inp, rendement_kg_ha = of_int (rendement_new inp),
          geometry = Polygon [(- (137 / 10), 95 / 10), (- (136 / 10), 95 / 10),
             (- (136 / 10), 96 / 10), (- (137 / 10), 96 / 10), (- (137 / 10), 95 / 10)]\<rparr>
     \<and> crs g' = crs g"
  using assms by (simp add: script_submit concat_row_def new_row_def new_geom_def coords_demo_def)

theorem append_size_and_values_witness:
  "\<exists>srv' res g'. script 0 ex_sorgho ex_server = (srv', res) \<and> sessions srv' 0 = Some g'
     \<and> length (rows g') = 3
     \<and> last (rows g') =
         \<lparr>culture = ''sorgho'', region = ''Kindia'',
          superficie = 7 / 2, rendement_kg_ha = 800,
          geometry = Polygon [(- (137 / 10), 95 / 10), (- (136 / 10), 95 / 10),
             (- (136 / 10), 96 / 10), (- (137 / 10), 96 / 10), (- (137 / 10), 95 / 10)]\<rparr>"
proof -
  from append_size_and_values [OF init_session_ex rows_ex_gdf submit_ex_sorgho]
  obtain srv' res g' where
    "script 0 ex_sorgho ex_server = (srv', res)" "sessions srv' 0 = Some g'"
    "length (rows g') = length (rows ex_gdf) + 1"
    "last (rows g') =
         \<lparr>culture = culture_new ex_sorgho, region = region_new ex_sorgho,
          superficie = superficie_new ex_sorgho,
          rendement_kg_ha = of_int (rendement_new ex_sorgho),
          geometry = Polygon [(- (137 / 10), 95 / 10), (- (136 / 10), 95 / 10),
             (- (136 / 10), 96 / 10), (- (137 / 10), 96 / 10), (- (137 / 10), 95 / 10)]\<rparr>"
    by blast
  then show ?thesis
    by (intro exI [of _ srv'] exI [of _ res] exI [of _ g']) (simp add: ex_gdf_def ex_sorgho_def)
qed

text \<open>
  C7. The append leaves the records that were there unchanged and in their order: they
  are the first records of the new collection, and the new record comes after them.
\<close>

theorem append_frame:
  assumes "init_session sid srv = Inr (g, srv1)" and "rows g \<noteq> []" and "submit inp"
  shows "\<exists>srv' res g'. script sid inp srv = (srv', res) \<and> sessions srv' sid = Some g'
     \<and> take (length (rows g)) (rows g') = rows g
     \<and> drop (length (rows g)) (rows g') = [new_row inp]
     \<and> rows g' = rows g @ [new_row inp]"
  using assms by (simp add: script_submit concat_row_def)

theorem append_frame_witness:
  "\<exists>srv' res g'. script 0 ex_sorgho ex_server = (srv', res) \<and> sessions srv' 0 = Some g'
     \<and> take 2 (rows g') = [ex_maize, ex_rice]
     \<and> drop 2 (rows g') = [new_row ex_sorgho]"
proof -
  from append_frame [OF init_session_ex rows_ex_gdf submit_ex_sorgho]
  obtain srv' res g' where
    "script 0 ex_sorgho ex_server = (srv', res)" "sessions srv' 0 = Some g'"
    "rows g' = rows ex_gdf @ [new_row ex_sorgho]" by blast
  then show ?thesis
    by (intro exI [of _ srv'] exI [of _ res] exI [of _ g']) (simp add: ex_gdf_def)
qed

subsection \<open>Persistence of the append\<close>





subsection \<open>A new region or culture in the submitting run\<close>

lemma series_sum_sum_list: "series_sum xs = sum_list xs"
  by (induction xs) auto

lemma unique_from_set: "set (unique_from seen xs) = set xs - set seen"
  by (induction seen xs rule: unique_from.induct) auto

lemma unique_from_distinct: "distinct (unique_from seen xs)"
  by (induction seen xs rule: unique_from.induct) (auto simp: unique_from_set)

lemma set_unique: "set (unique xs) = set xs"
  by (simp add: unique_def unique_from_set)

lemma distinct_unique: "distinct (unique xs)"
  by (simp add: unique_def unique_from_distinct)

lemma regions_subset: "set (regions g inp) \<subseteq> region ` set (rows g)"
  by (auto simp: regions_def multiselect_def set_unique isin_set split: option.splits)

lemma cultures_subset: "set (cultures g inp) \<subseteq> culture ` set (rows g)"
  by (auto simp: cultures_def multiselect_def set_unique isin_set split: option.splits)

lemma regions_default:
  "regions_picked inp = None \<Longrightarrow> set (regions g inp) = region ` set (rows g)"
  by (simp add: regions_def multiselect_def set_unique)

lemma cultures_default:
  "cultures_picked inp = None \<Longrightarrow> set (cultures g inp) = culture ` set (rows g)"
  by (simp add: cultures_def multiselect_def set_unique)

lemma filtered_concat_new_value:
  assumes "region r \<notin> set rs \<or> culture r \<notin> set cs"
  shows "filtered_gdf (concat_row g r) rs cs = filtered_gdf g rs cs"
  using assms by (auto simp: filtered_gdf_eq concat_row_def)

text \<open>
  C9. In the run that submits the form, the selections are computed from the collection as
  it was before the append. So when the submitted region or culture is not yet present in
  the collection, the appended record is stored in the session but is not in that run's
  filtered view: what the run renders (map, metrics, chart, table, export), or the
  exception it ends with, is what the old collection's view gives. In a later run of the
  session with the default selections the record is in the view, and that run renders.
\<close>

theorem new_value_hidden_in_submitting_run:
  assumes "init_session sid srv = Inr (g, srv1)" and "rows g \<noteq> []" and "submit inp"
    and "region_new inp \<notin> region ` set (rows g) \<or> culture_new inp \<notin> culture ` set (rows g)"
  shows "\<exists>srv' res. script sid inp srv = (srv', res)
     \<and> sessions srv' sid = Some (concat_row g (new_row inp))
     \<and> new_row inp \<notin> set (rows (filtered_gdf (concat_row g (new_row inp))
                                   (regions g inp) (cultures g inp)))
     \<and> res = render (Some (culture_new inp, region_new inp, superficie_new inp,
                            rendement_new inp))
               (filtered_gdf g (regions g inp) (cultures g inp))
     \<and> (\<forall>out. res = Inr out \<longrightarrow> new_row inp \<notin> set (rows (map_layer out)))
     \<and> (\<forall>inp2. \<not> submit inp2 \<and> regions_picked inp2 = None \<and> cultures_picked inp2 = None \<longrightarrow>
           (\<exists>srv'' out2. script sid inp2 srv' = (srv'', Inr out2)
              \<and> new_row inp \<in> set (rows (map_layer out2))))"
proof -
  let ?g' = "concat_row g (new_row inp)"
  let ?srv' = "srv1\<lparr>sessions := (sessions srv1)(sid := Some ?g'), geojson := Some ?g'\<rparr>"
  let ?msg = "Some (culture_new inp, region_new inp, superficie_new inp, rendement_new inp)"
  let ?res = "render ?msg (filtered_gdf ?g' (regions g inp) (cultures g inp))"
  have run: "script sid inp srv = (?srv', ?res)"
    using assms(1,2,3) by (rule script_submit)
  have hid: "region (new_row inp) \<notin> set (regions g inp)
             \<or> culture (new_row inp) \<notin> set (cultures g inp)"
    using assms(4) regions_subset [of g inp] cultures_subset [of g inp]
    by (auto simp: new_row_def)
  have same: "filtered_gdf ?g' (regions g inp) (cultures g inp)
                = filtered_gdf g (regions g inp) (cultures g inp)"
    using hid by (rule filtered_concat_new_value)
  have res: "?res = render ?msg (filtered_gdf g (regions g inp) (cultures g inp))"
    by (simp add: same)
  have notin: "new_row inp \<notin> set (rows (filtered_gdf ?g' (regions g inp) (cultures g inp)))"
    using hid by (auto simp: rows_filtered_gdf)
  have notin_out: "new_row inp \<notin> set (rows (map_layer out))" if "?res = Inr out" for out
    using notin render_Inr(2) [OF that] by simp
  have sess: "sessions ?srv' sid = Some ?g'" by simp
  have later: "\<exists>srv'' out2. script sid inp2 ?srv' = (srv'', Inr out2)
              \<and> new_row inp \<in> set (rows (map_layer out2))"
    if h: "\<not> submit inp2 \<and> regions_picked inp2 = None \<and> cultures_picked inp2 = None" for inp2
  proof -
    let ?v = "filtered_gdf ?g' (regions ?g' inp2) (cultures ?g' inp2)"
    have i: "init_session sid ?srv' = Inr (?g', ?srv')"
      by (simp add: init_session_def)
    have n: "rows ?g' \<noteq> []" by (simp add: concat_row_def)
    have s: "script sid inp2 ?srv' = (?srv', render None ?v)"
      using i n h by (simp add: script_no_submit)
    have m: "new_row inp \<in> set (rows ?v)"
      using h by (simp add: rows_filtered_gdf regions_default cultures_default concat_row_def)
    then have "rows ?v \<noteq> []" by auto
    then have "render None ?v =
       Inr \<lparr>success = None, map_layer = ?v,
            metric_nombre = nombre_de_parcelles ?v,
            metric_superficie = superficie_totale ?v,
            chart = graphique ?v,
            dataframe = drop_geometry ?v,
            csv = to_csv (drop_geometry ?v)\<rparr>"
      by (rule render_nonempty)
    with s m show ?thesis by simp
  qed
  show ?thesis
    using run sess notin res notin_out later by blast
qed

lemma submit_ex_fonio: "submit ex_fonio"
  by (simp add: ex_fonio_def)

lemma new_region_ex_fonio:
  "region_new ex_fonio \<notin> region ` set (rows ex_gdf)"
  by (simp add: ex_fonio_def ex_gdf_def ex_maize_def ex_rice_def)

lemma rerun_ex_rerun:
  "\<not> submit ex_rerun \<and> regions_picked ex_rerun = None \<and> cultures_picked ex_rerun = None"
  by (simp add: ex_rerun_def)

text \<open>Submitting a fonio parcel of Labe, a region the two-parcel collection does not
  have: the run shows the two old parcels only, the next run shows the new one too.\<close>

theorem new_value_hidden_in_submitting_run_witness:
  "region_new ex_fonio \<notin> region ` set (rows ex_gdf)
   \<and> (\<exists>srv' out. script 0 ex_fonio ex_server = (srv', Inr out)
        \<and> sessions srv' 0 = Some (concat_row ex_gdf (new_row ex_fonio))
        \<and> rows (map_layer out) = [ex_maize, ex_rice]
        \<and> new_row ex_fonio \<notin> set (rows (map_layer out))
        \<and> (\<exists>srv'' out2. script 0 ex_rerun srv' = (srv'', Inr out2)
              \<and> new_row ex_fonio \<in> set (rows (map_layer out2))))"
proof -
  let ?v = "filtered_gdf ex_gdf (regions ex_gdf ex_fonio) (cultures ex_gdf ex_fonio)"
  let ?msg = "Some (culture_new ex_fonio, region_new ex_fonio, superficie_new ex_fonio,
                    rendement_new ex_fonio)"
  from new_value_hidden_in_submitting_run
    [OF init_session_ex rows_ex_gdf submit_ex_fonio disjI1 [OF new_region_ex_fonio]]
  obtain srv' res where
    r: "script 0 ex_fonio ex_server = (srv', res)" and
    s: "sessions srv' 0 = Some (concat_row ex_gdf (new_row ex_fonio))" and
    o: "res = render ?msg ?v" and
    n: "\<forall>out. res = Inr out \<longrightarrow> new_row ex_fonio \<notin> set (rows (map_layer out))" and
    l: "\<forall>inp2. \<not> submit inp2 \<and> regions_picked inp2 = None \<and> cultures_picked inp2 = None \<longrightarrow>
           (\<exists>srv'' out2. script 0 inp2 srv' = (srv'', Inr out2)
              \<and> new_row ex_fonio \<in> set (rows (map_layer out2)))"
    by blast
  have v: "rows ?v = [ex_maize, ex_rice]"
    by (simp add: rows_filtered_gdf regions_def cultures_def multiselect_def
        unique_def ex_fonio_def ex_gdf_def ex_maize_def ex_rice_def)
  then have "rows ?v \<noteq> []" by simp
  from render_nonempty [OF this, of ?msg] o obtain out where
    out: "res = Inr out" "map_layer out = ?v" by simp
  from l rerun_ex_rerun have
    "\<exists>srv'' out2. script 0 ex_rerun srv' = (srv'', Inr out2)
              \<and> new_row ex_fonio \<in> set (rows (map_layer out2))"
    by blast
  with r s n v out new_region_ex_fonio show ?thesis by auto
qed

subsection \<open>What a run renders, and the empty view\<close>

text \<open>
  A run that renders has a view with at least one row. Its count is the number of records
  of the view and its total area is the rounding to two decimals of the sum of their
  superficie.
\<close>

lemma metrics_of_run:
  assumes "script sid inp srv = (srv', Inr out)"
  shows "rows (map_layer out) \<noteq> []"
    and "metric_nombre out = length (rows (map_layer out))"
    and "metric_superficie out = Round (sum_list (map superficie (rows (map_layer out)))) 2"
proof -
  from assms obtain msg v where r: "render msg v = Inr out"
    by (auto simp: script_def Let_def split: sum.splits if_splits prod.splits)
  from render_Inr [OF r]
  show "rows (map_layer out) \<noteq> []"
    and "metric_nombre out = length (rows (map_layer out))"
    and "metric_superficie out = Round (sum_list (map superficie (rows (map_layer out)))) 2"
    by (simp_all add: nombre_de_parcelles_def superficie_totale_def series_sum_sum_list)
qed

text \<open>
  C5. Lines 89-90 give, for every view, the number of its records as the count and the
  rounding to two decimals of the sum of their superficie as the total area: 0 and the
  rounding of 0 on the empty view. A run whose view is empty does not reach them. With the
  region filter cleared on the two-parcel collection the view is empty, line 83 raises,
  and the run ends with \<open>IndexError\<close>: no count and no total area are shown.
\<close>

theorem metrics_not_shown_on_empty_view:
  "rows (filtered_gdf ex_gdf (regions ex_gdf ex_no_region) (cultures ex_gdf ex_no_region)) = []
   \<and> nombre_de_parcelles
       (filtered_gdf ex_gdf (regions ex_gdf ex_no_region) (cultures ex_gdf ex_no_region)) = 0
   \<and> superficie_totale
       (filtered_gdf ex_gdf (regions ex_gdf ex_no_region) (cultures ex_gdf ex_no_region))
       = Round 0 2
   \<and> script 0 ex_no_region ex_server = (ex_loaded, Inl IndexError)"
proof -
  have v: "rows (filtered_gdf ex_gdf (regions ex_gdf ex_no_region) (cultures ex_gdf ex_no_region))
             = []"
    by (simp add: rows_filtered_gdf regions_def multiselect_def ex_no_region_def)
  have n: "\<not> submit ex_no_region" by (simp add: ex_no_region_def)
  from script_empty_view [OF init_session_ex rows_ex_gdf n v] v show ?thesis
    by (simp add: nombre_de_parcelles_def superficie_totale_def)
qed

lemma rendement_df_keys: "map fst (rendement_df v) = sort (unique (map culture (rows v)))"
  by (simp add: rendement_df_def comp_def)

lemma mean_group:
  "mean (map rendement_kg_ha xs) = sum_list (map rendement_kg_ha xs) / of_nat (length xs)"
  by (simp add: mean_def series_sum_sum_list)

text \<open>
  A run that renders shows the chart, never the warning: one bar per culture present in
  the view (each culture once, in sorted order), whose height is the arithmetic mean of
  rendement_kg_ha over the view's records of that culture.
\<close>

lemma chart_of_run:
  assumes "script sid inp srv = (srv', Inr out)"
  shows "\<exists>bars. chart out = Plotly_chart bars
         \<and> bars \<noteq> []
         \<and> distinct (map fst bars)
         \<and> sorted (map fst bars)
         \<and> set (map fst bars) = culture ` set (rows (map_layer out))
         \<and> (\<forall>(k, m) \<in> set bars.
               filter (\<lambda>r. culture r = k) (rows (map_layer out)) \<noteq> []
               \<and> m = sum_list (map rendement_kg_ha
                         (filter (\<lambda>r. culture r = k) (rows (map_layer out))))
                     / of_nat (length (filter (\<lambda>r. culture r = k) (rows (map_layer out)))))"
proof -
  from assms obtain msg v where r: "render msg v = Inr out"
    by (auto simp: script_def Let_def split: sum.splits if_splits prod.splits)
  note o = render_Inr [OF r]
  let ?bars = "rendement_df v"
  have c: "chart out = Plotly_chart ?bars"
    using o(1) by (simp add: o(6) graphique_def)
  have k: "set (map fst ?bars) = culture ` set (rows v)"
    by (simp add: rendement_df_keys set_unique)
  have n: "?bars \<noteq> []"
    using k o(1) by (cases "rows v") auto
  have d: "distinct (map fst ?bars)"
    by (simp add: rendement_df_keys distinct_unique)
  have s: "sorted (map fst ?bars)"
    by (simp add: rendement_df_keys)
  have m: "\<forall>(k, m) \<in> set ?bars.
               filter (\<lambda>r. culture r = k) (rows v) \<noteq> []
               \<and> m = sum_list (map rendement_kg_ha (filter (\<lambda>r. culture r = k) (rows v)))
                     / of_nat (length (filter (\<lambda>r. culture r = k) (rows v)))"
    by (auto simp: rendement_df_def set_unique mean_group filter_empty_conv)
  show ?thesis
    unfolding o(2) using c n d s k m by blast
qed

text \<open>
  C6. Lines 94-105 give the chart of the means per culture for a view with rows and the
  warning for an empty view. A run whose view is empty does not reach them: with the
  culture filter cleared on the two-parcel collection the view is empty, line 83 raises,
  and the run ends with \<open>IndexError\<close>; the warning is not shown.
\<close>

theorem warning_not_shown_on_empty_view:
  "rows (filtered_gdf ex_gdf (regions ex_gdf ex_no_culture) (cultures ex_gdf ex_no_culture)) = []
   \<and> graphique
       (filtered_gdf ex_gdf (regions ex_gdf ex_no_culture) (cultures ex_gdf ex_no_culture))
       = Warning aucune_donnee
   \<and> script 0 ex_no_culture ex_server = (ex_loaded, Inl IndexError)"
proof -
  have v: "rows (filtered_gdf ex_gdf (regions ex_gdf ex_no_culture)
                   (cultures ex_gdf ex_no_culture)) = []"
    by (simp add: rows_filtered_gdf cultures_def multiselect_def ex_no_culture_def)
  have n: "\<not> submit ex_no_culture" by (simp add: ex_no_culture_def)
  from script_empty_view [OF init_session_ex rows_ex_gdf n v] v show ?thesis
    by (simp add: graphique_def)
qed

lemma drop_geometry_columns:
  "columns (drop_geometry v) = [''culture'', ''region'', ''superficie'', ''rendement_kg_ha'']"
  by (simp add: drop_geometry_def gdf_columns_def)

lemma drop_geometry_body:
  "body (drop_geometry v) =
     map (\<lambda>r. [Txt (culture r), Txt (region r), Num (superficie r), Num (rendement_kg_ha r)])
       (rows v)"
  by (simp add: drop_geometry_def gdf_columns_def attribute_cell_def)

text \<open>
  In a run that renders, the table and the CSV export are both made from that run's
  filtered view (the session's collection filtered by the run's selections, not the whole
  collection) with the geometry column dropped: the columns are culture, region,
  superficie and rendement_kg_ha, and there is one line per record of the view, in order,
  with that record's four attribute values.
\<close>

lemma table_and_export_of_run:
  assumes "init_session sid srv = Inr (g, srv1)" and "script sid inp srv = (srv', Inr out)"
  shows "\<exists>g'. sessions srv' sid = Some g'
     \<and> map_layer out = filtered_gdf g' (regions g inp) (cultures g inp)
     \<and> dataframe out = drop_geometry (map_layer out)
     \<and> csv out = to_csv (drop_geometry (map_layer out))
     \<and> columns (dataframe out) = [''culture'', ''region'', ''superficie'', ''rendement_kg_ha'']
     \<and> ''geometry'' \<notin> set (columns (dataframe out))
     \<and> body (dataframe out) =
         map (\<lambda>r. [Txt (culture r), Txt (region r), Num (superficie r), Num (rendement_kg_ha r)])
           (rows (map_layer out))
     \<and> csv out =
         [Name ''culture'', Name ''region'', Name ''superficie'', Name ''rendement_kg_ha'']
         # map (\<lambda>r. [Value (Txt (culture r)), Value (Txt (region r)), Value (Num (superficie r)),
                      Value (Num (rendement_kg_ha r))])
             (rows (map_layer out))"
proof -
  let ?g' = "if submit inp then concat_row g (new_row inp) else g"
  have ne: "rows g \<noteq> []"
    using assms by (auto simp: script_def)
  have "\<exists>msg. sessions srv' sid = Some ?g'
     \<and> render msg (filtered_gdf ?g' (regions g inp) (cultures g inp)) = Inr out"
  proof (cases "submit inp")
    case True
    with assms ne show ?thesis by (auto simp: script_submit)
  next
    case False
    with assms ne show ?thesis by (auto simp: script_no_submit init_session_sessions)
  qed
  then obtain msg where
    s: "sessions srv' sid = Some ?g'" and
    r: "render msg (filtered_gdf ?g' (regions g inp) (cultures g inp)) = Inr out"
    by blast
  note o = render_Inr [OF r]
  show ?thesis
    using s o(2) by (simp add: o(7) o(8) drop_geometry_columns drop_geometry_body to_csv_def comp_def)
qed

text \<open>
  C8. Lines 109-118 make the table and the CSV export from the filtered view with the
  geometry column dropped; for a view with no row, a table with no line and a CSV with the
  header alone. A run whose view is empty does not reach them: with Kindia and rice
  selected, which no parcel of the two-parcel collection has together, line 83 raises and
  the run ends with \<open>IndexError\<close>, with no table and no export.
\<close>

theorem export_not_made_on_empty_view:
  "rows (filtered_gdf ex_gdf (regions ex_gdf ex_kindia_rice) (cultures ex_gdf ex_kindia_rice)) = []
   \<and> to_csv (drop_geometry
       (filtered_gdf ex_gdf (regions ex_gdf ex_kindia_rice) (cultures ex_gdf ex_kindia_rice)))
       = [[Name ''culture'', Name ''region'', Name ''superficie'', Name ''rendement_kg_ha'']]
   \<and> script 0 ex_kindia_rice ex_server = (ex_loaded, Inl IndexError)"
proof -
  have v: "rows (filtered_gdf ex_gdf (regions ex_gdf ex_kindia_rice)
                   (cultures ex_gdf ex_kindia_rice)) = []"
    by (simp add: rows_filtered_gdf regions_def cultures_def multiselect_def unique_def
        ex_kindia_rice_def ex_gdf_def ex_maize_def ex_rice_def)
  have n: "\<not> submit ex_kindia_rice" by (simp add: ex_kindia_rice_def)
  from script_empty_view [OF init_session_ex rows_ex_gdf n v] v show ?thesis
    by (simp add: to_csv_def drop_geometry_columns drop_geometry_body)
qed

subsection \<open>A run that renders: the example of the specification\<close>

text \<open>With only Kindia selected on the two-parcel collection, the view is the maize
  parcel: count 1, total area the rounding of 2, one bar of height 1000, and an export of
  the header and one line.\<close>

lemma run_kindia_only:
  "\<exists>out. script 0 ex_kindia_only ex_server = (ex_loaded, Inr out)
     \<and> rows (map_layer out) = [ex_maize]
     \<and> metric_nombre out = 1
     \<and> metric_superficie out = Round 2 2
     \<and> chart out = Plotly_chart [(''maize'', 1000)]
     \<and> csv out =
         [[Name ''culture'', Name ''region'', Name ''superficie'', Name ''rendement_kg_ha''],
          [Value (Txt ''maize''), Value (Txt ''Kindia''), Value (Num 2), Value (Num 1000)]]"
proof -
  let ?v = "filtered_gdf ex_gdf (regions ex_gdf ex_kindia_only) (cultures ex_gdf ex_kindia_only)"
  have n: "\<not> submit ex_kindia_only" by (simp add: ex_kindia_only_def)
  have v: "rows ?v = [ex_maize]"
    by (simp add: rows_filtered_gdf regions_def cultures_def multiselect_def unique_def
        ex_kindia_only_def ex_gdf_def ex_maize_def ex_rice_def)
  then have "rows ?v \<noteq> []" by simp
  from render_nonempty [OF this, of None]
  have r: "script 0 ex_kindia_only ex_server =
     (ex_loaded,
      Inr \<lparr>success = None, map_layer = ?v,
           metric_nombre = nombre_de_parcelles ?v,
           metric_superficie = superficie_totale ?v,
           chart = graphique ?v,
           dataframe = drop_geometry ?v,
           csv = to_csv (drop_geometry ?v)\<rparr>)"
    by (simp add: script_no_submit [OF init_session_ex rows_ex_gdf n])
  have "nombre_de_parcelles ?v = 1" "superficie_totale ?v = Round 2 2"
    "graphique ?v = Plotly_chart [(''maize'', 1000)]"
    "to_csv (drop_geometry ?v) =
         [[Name ''culture'', Name ''region'', Name ''superficie'', Name ''rendement_kg_ha''],
          [Value (Txt ''maize''), Value (Txt ''Kindia''), Value (Num 2), Value (Num 1000)]]"
    by (simp_all add: nombre_de_parcelles_def superficie_totale_def graphique_def
        rendement_df_def unique_def mean_def to_csv_def drop_geometry_columns
        drop_geometry_body v ex_maize_def)
  with r v show ?thesis by simp
qed

text \<open>The mean of a culture with two parcels.\<close>

lemma rendement_df_ex_mixed:
  "rendement_df ex_mixed = [(''maize'', 1250), (''rice'', 2000)]"
  by (simp add: rendement_df_def ex_mixed_def ex_maize_def ex_rice_def unique_def mean_def)

end
